theory Spec2Isabelle
  imports Complex_Main
begin

section \<open>Lookup tables of seismic phases (notebooks/helpers.py)\<close>

text \<open>
  A Python float is modelled by the real number it denotes; the result of a product or
  a sum of floats is rounded to the nearest double, as the machine does. Not-a-number,
  which the lookup arrays are filled with, is a value of its own, and the numbers that
  the tracer returns are taken to be finite. The ray tracer (pyrocko's cake) is outside the
  repository: its velocity model is a function that returns the arrivals for a list of
  distances (in degrees), the phases, the depth of the source and the depth of the
  receiver; its two unit conversion constants are parameters.
\<close>

datatype error = KeyError | ValueError

datatype cell = NaN | Val real

record arrival =
  arr_x :: real
  arr_t :: real
  arr_incidence_angle :: real
  arr_takeoff_angle :: real
  arr_phase :: string
  arr_efficiency :: real

record cake =
  d2m :: real
  m2d :: real

type_synonym earth_model = "real list \<Rightarrow> string list \<Rightarrow> real \<Rightarrow> real \<Rightarrow> arrival list"

record calculator =
  lat :: real
  lon :: real
  data_dir :: string
  distance_grid :: "real list"
  source_depth_grid :: "real list"
  receiver_depth_grid :: "real list"
  model :: earth_model

subsection \<open>The name of the cache file\<close>

text \<open>Decimal digits of a natural number, as \<open>str\<close> prints them.\<close>

definition digit_char :: "nat \<Rightarrow> char" where
  "digit_char d = ''0123456789'' ! (d mod 10)"

fun digits :: "nat \<Rightarrow> string" where
  "digits n = (if n < 10 then [digit_char n] else digits (n div 10) @ [digit_char (n mod 10)])"

declare digits.simps [simp del]

text \<open>Rounding to the nearest integer, a tie going to the even neighbour.\<close>

definition round_half_even :: "real \<Rightarrow> int" where
  "round_half_even v =
     (let f = \<lfloor>v\<rfloor>; r = v - of_int f in
      if r < 1 / 2 then f
      else if r > 1 / 2 then f + 1
      else if even f then f else f + 1)"

text \<open>
  The format \<open>.2f\<close> of a finite number: the sign, the integer part and two decimals of
  the value rounded at the second decimal. A negative value keeps its sign even when it
  rounds to zero.
\<close>

definition format_2f :: "real \<Rightarrow> string" where
  "format_2f v =
     (let n = nat (round_half_even (\<bar>v\<bar> * 100)) in
      (if v < 0 then ''-'' else '''') @ digits (n div 100) @ ''.'' @
      [digit_char (n mod 100 div 10), digit_char (n mod 10)])"

text \<open>\<open>os.path.join\<close> of two components on a POSIX system.\<close>

definition path_join :: "string \<Rightarrow> string \<Rightarrow> string" where
  "path_join a b =
     (if b \<noteq> [] \<and> hd b = CHR ''/'' then b
      else if a = [] \<or> last a = CHR ''/'' then a @ b
      else a @ ''/'' @ b)"

definition filename :: "calculator \<Rightarrow> string \<Rightarrow> string" where
  "filename c grp =
     path_join (data_dir c)
       (grp @ ''_lookup_'' @ format_2f (lat c) @ ''_'' @ format_2f (lon c) @ ''.nc'')"

subsection \<open>The dataset\<close>

text \<open>
  The four data variables are arrays over (receiver depth, distance, source depth),
  held as nested lists in that order of the axes.
\<close>

type_synonym array3 = "cell list list list"

datatype quantity = Arrival_time | Incidence_angle | Takeoff_angle | Efficiency

record dataset =
  v_arrival_time :: array3
  v_incidence_angle :: array3
  v_takeoff_angle :: array3
  v_efficiency :: array3
  coord_receiver_depth :: "real list"
  coord_distance :: "real list"
  coord_source_depth :: "real list"

definition full :: "nat \<Rightarrow> nat \<Rightarrow> nat \<Rightarrow> cell \<Rightarrow> array3" where
  "full n_rec n_dist n_src v = replicate n_rec (replicate n_dist (replicate n_src v))"

fun values_of :: "dataset \<Rightarrow> quantity \<Rightarrow> array3" where
  "values_of ds Arrival_time = v_arrival_time ds"
| "values_of ds Incidence_angle = v_incidence_angle ds"
| "values_of ds Takeoff_angle = v_takeoff_angle ds"
| "values_of ds Efficiency = v_efficiency ds"

fun set_values :: "dataset \<Rightarrow> quantity \<Rightarrow> array3 \<Rightarrow> dataset" where
  "set_values ds Arrival_time A = ds\<lparr>v_arrival_time := A\<rparr>"
| "set_values ds Incidence_angle A = ds\<lparr>v_incidence_angle := A\<rparr>"
| "set_values ds Takeoff_angle A = ds\<lparr>v_takeoff_angle := A\<rparr>"
| "set_values ds Efficiency A = ds\<lparr>v_efficiency := A\<rparr>"

definition at3 :: "array3 \<Rightarrow> nat \<Rightarrow> nat \<Rightarrow> nat \<Rightarrow> cell" where
  "at3 A rec_i dist_i src_i = A ! rec_i ! dist_i ! src_i"

text \<open>
  The assignment \<open>A[rec_i, :, src_i] = vs\<close> of numpy: the values go to the cells of the
  distance axis in order; a single value is broadcast to all of them; any other length
  that differs from the length of the axis raises ValueError.
\<close>

definition set_slice :: "array3 \<Rightarrow> nat \<Rightarrow> nat \<Rightarrow> real list \<Rightarrow> error + array3" where
  "set_slice A rec_i src_i vs =
     (let plane = A ! rec_i in
      if length vs = length plane then
        Inr (A[rec_i := map (\<lambda>(cells, v). cells[src_i := Val v]) (zip plane vs)])
      else if length vs = 1 then
        Inr (A[rec_i := map (\<lambda>cells. cells[src_i := Val (hd vs)]) plane])
      else Inl ValueError)"

subsection \<open>The table of the arrivals of one pair of depths\<close>

record row =
  distance :: real
  arrival_time :: real
  incidence_angle :: real
  takeoff_angle :: real
  phase :: string
  efficiency :: real

text \<open>
  Rounding a real number to the nearest double, a tie going to the even significand.
  \<open>binade\<close> finds the exponent \<open>e\<close> with \<open>2 ^ e \<le> \<bar>x\<bar> < 2 ^ (e + 1)\<close> by halving or
  doubling; below the least normal exponent the spacing of the doubles stays that of the
  subnormal numbers. Overflow to infinity is not modelled.
\<close>

fun binade :: "nat \<Rightarrow> real \<Rightarrow> int \<Rightarrow> int" where
  "binade 0 x e = e"
| "binade (Suc fuel) x e =
     (if 2 \<le> \<bar>x\<bar> then binade fuel (x / 2) (e + 1)
      else if \<bar>x\<bar> < 1 then binade fuel (x * 2) (e - 1)
      else e)"

definition round_double :: "real \<Rightarrow> real" where
  "round_double x =
     (if x = 0 then 0
      else let e = max (binade 2200 x 0) (- 1022); ulp = 2 powi (e - 52)
           in of_int (round_half_even (x / ulp)) * ulp)"

text \<open>
  The remainder \<open>fmod\<close> of the C library, with the quotient truncated towards zero; it
  is exact. Python's \<open>%\<close> on floats takes it and, when it is not zero and its sign is
  not that of the divisor, adds the divisor: that sum is rounded.
\<close>

definition fmod :: "real \<Rightarrow> real \<Rightarrow> real" where
  "fmod a b = a - b * of_int (if 0 \<le> a / b then \<lfloor>a / b\<rfloor> else \<lceil>a / b\<rceil>)"

definition py_mod :: "real \<Rightarrow> real \<Rightarrow> real" where
  "py_mod a b =
     (let m = fmod a b in
      if m \<noteq> 0 \<and> (b < 0) \<noteq> (m < 0) then round_double (m + b) else m)"

definition row_of :: "cake \<Rightarrow> arrival \<Rightarrow> row" where
  "row_of ck a =
     \<lparr>distance = round_double (arr_x a * d2m ck),
      arrival_time = \<bar>arr_t a\<bar>,
      incidence_angle = py_mod (arr_incidence_angle a) 180,
      takeoff_angle = arr_takeoff_angle a,
      phase = arr_phase a,
      efficiency = arr_efficiency a\<rparr>"

fun column :: "quantity \<Rightarrow> row \<Rightarrow> real" where
  "column Arrival_time r = arrival_time r"
| "column Incidence_angle r = incidence_angle r"
| "column Takeoff_angle r = takeoff_angle r"
| "column Efficiency r = efficiency r"

text \<open>
  A data frame is the list of its rows; the label of a row is its position. Grouping by
  the distance gives the groups in ascending order of their key; a frame built from no
  rows has no column to group by, which raises KeyError.
\<close>

definition group_keys :: "row list \<Rightarrow> real list" where
  "group_keys df = sort (remdups (map distance df))"

definition group_series :: "row list \<Rightarrow> real \<Rightarrow> (nat \<times> real) list" where
  "group_series df key =
     map (\<lambda>(i, r). (i, arrival_time r)) (filter (\<lambda>(i, r). distance r = key) (enumerate 0 df))"

text \<open>The label of the first occurrence of the minimum of a series.\<close>

fun idxmin_from :: "nat \<Rightarrow> real \<Rightarrow> (nat \<times> real) list \<Rightarrow> nat" where
  "idxmin_from i v [] = i"
| "idxmin_from i v ((j, w) # s) = (if w < v then idxmin_from j w s else idxmin_from i v s)"

fun idxmin :: "(nat \<times> real) list \<Rightarrow> nat option" where
  "idxmin [] = None"
| "idxmin ((i, v) # s) = Some (idxmin_from i v s)"

definition groupby_idxmin :: "row list \<Rightarrow> error + nat list" where
  "groupby_idxmin df =
     (if df = [] then Inl KeyError
      else Inr (List.map_filter (\<lambda>key. idxmin (group_series df key)) (group_keys df)))"

definition loc :: "row list \<Rightarrow> nat list \<Rightarrow> row list" where
  "loc df labels = map (\<lambda>i. df ! i) labels"

subsection \<open>The sweep over the pairs of depths\<close>

fun assign_quantities :: "dataset \<Rightarrow> nat \<Rightarrow> nat \<Rightarrow> row list \<Rightarrow> quantity list \<Rightarrow> error + dataset" where
  "assign_quantities ds rec_i src_i df [] = Inr ds"
| "assign_quantities ds rec_i src_i df (q # qs) =
     (case set_slice (values_of ds q) rec_i src_i (map (column q) df) of
        Inl e \<Rightarrow> Inl e
      | Inr A \<Rightarrow> assign_quantities (set_values ds q A) rec_i src_i df qs)"

definition pair_arrivals :: "cake \<Rightarrow> calculator \<Rightarrow> string list \<Rightarrow> nat \<Rightarrow> nat \<Rightarrow> arrival list" where
  "pair_arrivals ck c phases rec_i src_i =
     model c (map (\<lambda>d. round_double (d * m2d ck)) (distance_grid c)) phases
       (source_depth_grid c ! src_i) (receiver_depth_grid c ! rec_i)"

definition quantities :: "quantity list" where
  "quantities = [Arrival_time, Incidence_angle, Takeoff_angle, Efficiency]"

text \<open>The body of the \<open>try\<close> statement: the first row of least arrival time of every
  distance, then the four assignments.\<close>

definition try_body :: "dataset \<Rightarrow> nat \<Rightarrow> nat \<Rightarrow> row list \<Rightarrow> error + dataset" where
  "try_body ds rec_i src_i df =
     (case groupby_idxmin df of
        Inl e \<Rightarrow> Inl e
      | Inr labels \<Rightarrow>
          assign_quantities ds rec_i src_i (loc df labels) quantities)"

text \<open>
  One pass of the inner loop. KeyError is caught and the dataset stays as it is (the
  error is raised before any assignment); ValueError is not caught.
\<close>

definition pair_step :: "cake \<Rightarrow> calculator \<Rightarrow> string list \<Rightarrow> dataset \<Rightarrow> nat \<times> nat \<Rightarrow> error + dataset" where
  "pair_step ck c phases ds p =
     (let df = map (row_of ck) (pair_arrivals ck c phases (fst p) (snd p)) in
      case try_body ds (fst p) (snd p) df of
        Inl KeyError \<Rightarrow> Inr ds
      | Inl ValueError \<Rightarrow> Inl ValueError
      | Inr ds' \<Rightarrow> Inr ds')"

fun run_pairs :: "cake \<Rightarrow> calculator \<Rightarrow> string list \<Rightarrow> dataset \<Rightarrow> (nat \<times> nat) list \<Rightarrow> error + dataset" where
  "run_pairs ck c phases ds [] = Inr ds"
| "run_pairs ck c phases ds (p # ps) =
     (case pair_step ck c phases ds p of
        Inl e \<Rightarrow> Inl e
      | Inr ds' \<Rightarrow> run_pairs ck c phases ds' ps)"

definition empty_dataset :: "calculator \<Rightarrow> dataset" where
  "empty_dataset c =
     (let A = full (length (receiver_depth_grid c)) (length (distance_grid c))
                (length (source_depth_grid c)) NaN in
      \<lparr>v_arrival_time = A, v_incidence_angle = A, v_takeoff_angle = A, v_efficiency = A,
       coord_receiver_depth = receiver_depth_grid c,
       coord_distance = distance_grid c,
       coord_source_depth = source_depth_grid c\<rparr>)"

definition calculate_lookup :: "cake \<Rightarrow> calculator \<Rightarrow> string list \<Rightarrow> error + dataset" where
  "calculate_lookup ck c phases =
     run_pairs ck c phases (empty_dataset c)
       (List.product [0..<length (receiver_depth_grid c)] [0..<length (source_depth_grid c)])"

subsection \<open>The cache of lookup tables\<close>

text \<open>
  What the programs print is kept as a list of messages. The files of the cache are a
  map from paths to the datasets stored there. The field \<open>computed\<close> is not a
  variable of the program: it records the groups for which the sweep was started, so
  that a theorem can say that it was not.
\<close>

datatype message =
    Loading string
  | Line_finished nat
  | No_current_line
  | Current_line_cleared
  | All_points_cleared
  | Selected_points "(real \<times> real) list list"
  | Loaded_points string
  | Failed_to_load string
  | Proceeding
  | Saved_points string
  | Failed_to_save string

record world =
  files :: "string \<rightharpoonup> dataset"
  printed :: "message list"
  computed :: "string list"

text \<open>
  The loop of \<open>__call__\<close> over the items of \<open>phase_groups\<close>. An exception of the sweep
  ends the call; the files written for the groups before it stay.
\<close>

fun call_loop ::
  "cake \<Rightarrow> calculator \<Rightarrow> (string \<times> string list) list \<Rightarrow> (string \<rightharpoonup> dataset) \<Rightarrow> world
     \<Rightarrow> (error + (string \<rightharpoonup> dataset)) \<times> world" where
  "call_loop ck c [] results w = (Inr results, w)"
| "call_loop ck c ((grp, phases) # rest) results w =
     (let fname = filename c grp;
          w1 = w\<lparr>printed := printed w @ [Loading fname]\<rparr>
      in case files w1 fname of
           Some ds \<Rightarrow> call_loop ck c rest (results(grp \<mapsto> ds)) w1
         | None \<Rightarrow>
             (let w2 = w1\<lparr>computed := computed w1 @ [grp]\<rparr> in
              case calculate_lookup ck c phases of
                Inl e \<Rightarrow> (Inl e, w2)
              | Inr ds \<Rightarrow>
                  call_loop ck c rest (results(grp \<mapsto> ds))
                    (w2\<lparr>files := (files w2)(fname \<mapsto> ds)\<rparr>)))"

definition call ::
  "cake \<Rightarrow> calculator \<Rightarrow> (string \<times> string list) list \<Rightarrow> world
     \<Rightarrow> (error + (string \<rightharpoonup> dataset)) \<times> world" where
  "call ck c phase_groups w = call_loop ck c phase_groups Map.empty w"

section \<open>Interactive selection of points (notebooks/interactive_proposal.py)\<close>

text \<open>
  The selector keeps the finished lines, the line being drawn, the index of that line
  and, once the window is closed, the result. The figure is not part of the model: the
  drawing calls of the handlers change none of these fields. What the handlers print is
  kept in \<open>messages\<close>; of \<open>print_points\<close> only the list of lines is kept, not the
  lengths it prints after it.
\<close>

type_synonym point = "real \<times> real"
type_synonym polyline = "point list"

record selector =
  selected_points :: "polyline list"
  current_line :: polyline
  current_line_index :: nat
  result :: "polyline list option"
  messages :: "message list"

definition init_selector :: selector where
  "init_selector =
     \<lparr>selected_points = [], current_line = [], current_line_index = 0, result = None,
      messages = []\<rparr>"

definition on_close :: "selector \<Rightarrow> selector" where
  "on_close s =
     (let s1 = (if current_line s \<noteq> []
                then s\<lparr>selected_points := selected_points s @ [current_line s]\<rparr> else s)
      in s1\<lparr>result := Some (selected_points s1)\<rparr>)"

definition get_result :: "selector \<Rightarrow> polyline list option" where
  "get_result s = result s"

definition on_click :: "bool \<Rightarrow> real \<Rightarrow> real \<Rightarrow> selector \<Rightarrow> selector" where
  "on_click inaxes xdata ydata s =
     (if \<not> inaxes then s else s\<lparr>current_line := current_line s @ [(xdata, ydata)]\<rparr>)"

definition finish_line :: "selector \<Rightarrow> selector" where
  "finish_line s =
     (if current_line s \<noteq> [] then
        s\<lparr>selected_points := selected_points s @ [current_line s],
          current_line := [],
          current_line_index := current_line_index s + 1,
          messages := messages s @ [Line_finished (length (selected_points s) + 1)]\<rparr>
      else s)"

definition new_line :: "selector \<Rightarrow> selector" where
  "new_line s = (if current_line s \<noteq> [] then finish_line s else s)"

definition clear_current_line :: "selector \<Rightarrow> selector" where
  "clear_current_line s =
     (if current_line s = [] then s\<lparr>messages := messages s @ [No_current_line]\<rparr>
      else s\<lparr>current_line := [], messages := messages s @ [Current_line_cleared]\<rparr>)"

definition clear_all :: "selector \<Rightarrow> selector" where
  "clear_all s =
     s\<lparr>selected_points := [], current_line := [], current_line_index := 0,
       messages := messages s @ [All_points_cleared]\<rparr>"

definition print_points :: "selector \<Rightarrow> selector" where
  "print_points s =
     (let s1 = (if current_line s \<noteq> [] then finish_line s else s);
          points_to_print =
            (case result s1 of
               Some r \<Rightarrow> if selected_points s1 = [] \<and> r \<noteq> [] then r else selected_points s1
             | None \<Rightarrow> selected_points s1)
      in s1\<lparr>messages := messages s1 @ [Selected_points points_to_print]\<rparr>)"

datatype event =
    Click bool real real
  | New_line
  | Finish_line
  | Clear_current_line
  | Clear_all
  | Print_points

fun handle :: "selector \<Rightarrow> event \<Rightarrow> selector" where
  "handle s (Click inaxes xdata ydata) = on_click inaxes xdata ydata s"
| "handle s New_line = new_line s"
| "handle s Finish_line = finish_line s"
| "handle s Clear_current_line = clear_current_line s"
| "handle s Clear_all = clear_all s"
| "handle s Print_points = print_points s"

text \<open>
  The constructor shows the window and returns when it is closed: the events of the
  user are handled in their order, then the close event.
\<close>

definition PointSelector :: "event list \<Rightarrow> selector" where
  "PointSelector events = on_close (foldl handle init_selector events)"

subsection \<open>Loading and saving the selected points\<close>

text \<open>
  A file holds a pickled list of polylines, or something that cannot be opened or
  unpickled. Whether writing to a path raises is a parameter of the file system; a write
  that raises is taken to leave the files as they were. \<open>sessions\<close> counts the
  interactive sessions that were started.
\<close>

datatype file_content = Pickle "polyline list" | Unreadable

record gui_world =
  gui_files :: "string \<rightharpoonup> file_content"
  write_fails :: "string \<Rightarrow> bool"
  gui_printed :: "message list"
  sessions :: nat

text \<open>The first block of \<open>select_points\<close>: the points, when they were loaded.\<close>

definition load_points :: "string option \<Rightarrow> gui_world \<Rightarrow> polyline list option \<times> gui_world" where
  "load_points file_name w =
     (case file_name of
        None \<Rightarrow> (None, w)
      | Some fn \<Rightarrow>
          if fn \<noteq> [] \<and> gui_files w fn \<noteq> None then
            (case gui_files w fn of
               Some (Pickle points) \<Rightarrow>
                 (Some points, w\<lparr>gui_printed := gui_printed w @ [Loaded_points fn]\<rparr>)
             | _ \<Rightarrow>
                 (None, w\<lparr>gui_printed := gui_printed w @ [Failed_to_load fn, Proceeding]\<rparr>))
          else (None, w))"

text \<open>The last block of \<open>select_points\<close>: the save step.\<close>

definition save_points :: "string option \<Rightarrow> polyline list option \<Rightarrow> gui_world \<Rightarrow> gui_world" where
  "save_points file_name points w =
     (case (file_name, points) of
        (Some fn, Some pts) \<Rightarrow>
          if fn \<noteq> [] \<and> pts \<noteq> [] then
            (if write_fails w fn
             then w\<lparr>gui_printed := gui_printed w @ [Failed_to_save fn]\<rparr>
             else w\<lparr>gui_files := (gui_files w)(fn \<mapsto> Pickle pts),
                    gui_printed := gui_printed w @ [Saved_points fn]\<rparr>)
          else w
      | _ \<Rightarrow> w)"

definition select_points ::
  "string option \<Rightarrow> event list \<Rightarrow> gui_world \<Rightarrow> polyline list option \<times> gui_world" where
  "select_points file_name events w =
     (case load_points file_name w of
        (Some points, w1) \<Rightarrow> (Some points, w1)
      | (None, w1) \<Rightarrow>
          (let selector = PointSelector events;
               points = get_result selector;
               w2 = w1\<lparr>sessions := sessions w1 + 1,
                       gui_printed := gui_printed w1 @ messages selector\<rparr>
           in (points, save_points file_name points w2)))"

section \<open>Notions used in the statements and their proofs\<close>

text \<open>
  An array has the shape of the dataset when its three axes have the given lengths.
\<close>

definition shaped :: "nat \<Rightarrow> nat \<Rightarrow> nat \<Rightarrow> array3 \<Rightarrow> bool" where
  "shaped nr nd ns A \<longleftrightarrow>
     length A = nr \<and> (\<forall>i<nr. length (A ! i) = nd \<and> (\<forall>j<nd. length (A ! i ! j) = ns))"






text \<open>
  The messages of one call whose groups are all read from their files.
\<close>

definition loading_messages :: "calculator \<Rightarrow> (string \<times> string list) list \<Rightarrow> message list" where
  "loading_messages c phase_groups = map (\<lambda>(grp, phases). Loading (filename c grp)) phase_groups"

section \<open>Example inputs\<close>

text \<open>
  A tracer with three arrivals at 1000 m (two of them with the same least time) and one
  at 2000 m for the source depth 10, and none for any other source depth; a tracer with
  a single arrival at 1000 m; a tracer whose single arrival has a negative incidence
  angle of tiny magnitude; calculators over them; the dataset that the sweep returns.
  The conversion constant of the examples is a power of two, so that the products with
  it are exact in floating point as well.
\<close>

definition ex_cake :: cake where
  "ex_cake = \<lparr>d2m = 131072, m2d = 1 / 131072\<rparr>"

definition ex_arrival :: "real \<Rightarrow> real \<Rightarrow> real \<Rightarrow> arrival" where
  "ex_arrival d tt inc =
     \<lparr>arr_x = d / 131072, arr_t = tt, arr_incidence_angle = inc, arr_takeoff_angle = 30,
      arr_phase = ''P'', arr_efficiency = 1\<rparr>"

definition ex_model :: earth_model where
  "ex_model xs phases zstart zstop =
     (if zstart = 10
      then [ex_arrival 1000 5 190, ex_arrival 2000 7 20, ex_arrival 1000 3 (- 10), ex_arrival 1000 3 50]
      else [])"

definition ex_model_near :: earth_model where
  "ex_model_near xs phases zstart zstop = [ex_arrival 1000 3 50]"


definition ex_calc :: "real list \<Rightarrow> calculator" where
  "ex_calc grid =
     \<lparr>lat = 45.125, lon = - 7.001, data_dir = ''data'', distance_grid = grid,
      source_depth_grid = [10, 20], receiver_depth_grid = [0], model = ex_model\<rparr>"



definition ex_dataset_desc :: dataset where
  "ex_dataset_desc =
     \<lparr>v_arrival_time = [[[Val 3, NaN], [Val 7, NaN]]],
      v_incidence_angle = [[[Val 170, NaN], [Val 20, NaN]]],
      v_takeoff_angle = [[[Val 30, NaN], [Val 30, NaN]]],
      v_efficiency = [[[Val 1, NaN], [Val 1, NaN]]],
      coord_receiver_depth = [0], coord_distance = [2000, 1000],
      coord_source_depth = [10, 20]\<rparr>"

definition ex_groups :: "(string \<times> string list) list" where
  "ex_groups = [(''p'', [''p'', ''P'']), (''s'', [''s'', ''S''])]"

definition ex_stored :: dataset where
  "ex_stored =
     \<lparr>v_arrival_time = [[[Val 1]]], v_incidence_angle = [[[Val 2]]],
      v_takeoff_angle = [[[Val 3]]], v_efficiency = [[[NaN]]],
      coord_receiver_depth = [0], coord_distance = [500], coord_source_depth = [5]\<rparr>"

definition ex_world :: world where
  "ex_world =
     \<lparr>files = [''data/p_lookup_45.12_-7.00.nc'' \<mapsto> ex_stored], printed = [], computed = []\<rparr>"


text \<open>
  A session of clicks, the lines it selects, file systems and a selector.
\<close>

definition ex_events :: "event list" where
  "ex_events =
     [Click True 1 2, Click False 9 9, Click True 3 4, Finish_line, Finish_line,
      Click True 5 6]"

definition ex_points :: "polyline list" where
  "ex_points = [[(1, 2), (3, 4)], [(5, 6)]]"

definition ex_gui :: "(string \<rightharpoonup> file_content) \<Rightarrow> bool \<Rightarrow> gui_world" where
  "ex_gui fs fails = \<lparr>gui_files = fs, write_fails = (\<lambda>path. fails), gui_printed = [], sessions = 0\<rparr>"

definition ex_selector :: "polyline \<Rightarrow> selector" where
  "ex_selector line =
     \<lparr>selected_points = [[(1, 2), (3, 4)]], current_line = line, current_line_index = 1,
      result = None, messages = [Line_finished 1]\<rparr>"

section \<open>Properties of the lookup sweep\<close>

subsection \<open>Assignment to a slice of an array\<close>



lemma shaped_nth:
  assumes "shaped nr nd ns A" "i < nr"
  shows "length (A ! i) = nd" and "j < nd \<Longrightarrow> length (A ! i ! j) = ns"
  using assms by (auto simp: shaped_def)

lemma set_slice_Inl:
  assumes "shaped nr nd ns A" "i < nr" "set_slice A i k vs = Inl e"
  shows "e = ValueError \<and> length vs \<noteq> nd \<and> length vs \<noteq> 1"
  using assms shaped_nth(1)[OF assms(1,2)]
  by (auto simp: set_slice_def Let_def split: if_splits)




subsection \<open>The first minimum of every group\<close>







lemma group_keys_sorted: "sorted (group_keys df)" and group_keys_distinct: "distinct (group_keys df)"
  by (simp_all add: group_keys_def)





subsection \<open>The four assignments and the loop over the pairs\<close>













subsection \<open>Rounding, the remainder and the format of two decimals\<close>











subsection \<open>Rows and cells\<close>




subsection \<open>The examples, evaluated\<close>



lemma ex_filename: "filename (ex_calc [1000, 2000]) ''p'' = ''data/p_lookup_45.12_-7.00.nc''"
  by code_simp

lemma ex_session: "get_result (PointSelector ex_events) = Some ex_points"
  by code_simp

lemma ex_points_ne: "ex_points \<noteq> []"
  by (simp add: ex_points_def)

subsection \<open>Distances without arrivals\<close>

text \<open>
  C2 (the code departs from the claim). The claim: the cells of a distance without
  arrivals stay not-a-number and the computation returns, also when other distances of
  the same pair have arrivals. The sweep does not do that. With the distances 1000, 2000
  and 3000 and arrivals at 1000 and 2000 only, the two rows kept do not fit the three
  cells of the slice and the computation ends with ValueError. With the distances 1000
  and 2000 and a single arrival, at 1000, the one row is broadcast: the cell of the
  distance 2000 holds the arrival time 3 of the distance 1000.
\<close>

theorem partial_arrivals_raise:
  "calculate_lookup ex_cake (ex_calc [1000, 2000, 3000]) [''P''] = Inl ValueError \<and>
   (case calculate_lookup ex_cake ((ex_calc [1000, 2000])\<lparr>model := ex_model_near\<rparr>) [''P''] of
      Inl e \<Rightarrow> False
    | Inr ds \<Rightarrow> at3 (v_arrival_time ds) 0 1 0 = Val 3)"
  by code_simp

subsection \<open>The arrival kept for a distance\<close>

text \<open>
  C3 (the code departs from the claim). The claim: the cell of every distance with an
  arrival holds the least arrival time of the arrivals at that distance, and the other
  quantities of that arrival. The rows kept, one per distance, come out of the grouping
  in ascending order of the distance and are assigned to the slice by position. With
  the distance grid 2000, 1000 the dataset carries these coordinates, the only arrival
  at 2000 has the time 7, and the cell of the distance 2000 holds 3, the least time of
  the arrivals at 1000. It is the positional assignment of C2 that misses here.
\<close>

theorem unsorted_grid_misplaces_arrival:
  "coord_distance ex_dataset_desc ! 0 = 2000 \<and>
   calculate_lookup ex_cake (ex_calc [2000, 1000]) [''P''] = Inr ex_dataset_desc \<and>
   at3 (v_arrival_time ex_dataset_desc) 0 0 0 = Val 3 \<and>
   map arrival_time
     (filter (\<lambda>r. distance r = 2000)
       (map (row_of ex_cake) (pair_arrivals ex_cake (ex_calc [2000, 1000]) [''P''] 0 0))) = [7] \<and>
   map arrival_time
     (filter (\<lambda>r. distance r = 1000)
       (map (row_of ex_cake) (pair_arrivals ex_cake (ex_calc [2000, 1000]) [''P''] 0 0))) = [5, 3, 3]"
  by code_simp

subsection \<open>Pairs of depths without arrivals\<close>



subsection \<open>The incidence angle\<close>




section \<open>Properties of the cache\<close>

lemma call_loop_grows:
  assumes "call_loop ck c pg res w = (Inr res', w')"
  shows "(\<forall>f d. files w f = Some d \<longrightarrow> files w' f = Some d) \<and>
         (\<forall>g. res' g = (if g \<in> fst ` set pg then files w' (filename c g) else res g)) \<and>
         (\<forall>g \<in> fst ` set pg. files w' (filename c g) \<noteq> None)"
  using assms
proof (induction pg arbitrary: res w)
  case Nil
  then show ?case by simp
next
  case (Cons p pg)
  obtain g0 ph where p: "p = (g0, ph)" by (cases p)
  let ?f = "filename c g0"
  show ?case
  proof (cases "files w ?f")
    case (Some d)
    let ?w1 = "w\<lparr>printed := printed w @ [Loading ?f]\<rparr>"
    from Cons.prems Some have run: "call_loop ck c pg (res(g0 \<mapsto> d)) ?w1 = (Inr res', w')"
      by (simp add: p)
    from Cons.IH[OF run] have
      keep: "\<forall>f d. files w f = Some d \<longrightarrow> files w' f = Some d" and
      res: "\<forall>g. res' g = (if g \<in> fst ` set pg then files w' (filename c g) else (res(g0 \<mapsto> d)) g)" and
      ex: "\<forall>g \<in> fst ` set pg. files w' (filename c g) \<noteq> None"
      by simp_all
    from keep Some have f0: "files w' ?f = Some d" by blast
    show ?thesis using keep res ex f0 by (auto simp: p)
  next
    case None
    let ?w2 = "w\<lparr>printed := printed w @ [Loading ?f], computed := computed w @ [g0]\<rparr>"
    from Cons.prems None obtain d where
      calc: "calculate_lookup ck c ph = Inr d" and
      run: "call_loop ck c pg (res(g0 \<mapsto> d)) (?w2\<lparr>files := (files ?w2)(?f \<mapsto> d)\<rparr>) = (Inr res', w')"
      by (auto simp: p Let_def split: sum.splits)
    from Cons.IH[OF run] have
      keep: "\<forall>f e. ((files w)(?f \<mapsto> d)) f = Some e \<longrightarrow> files w' f = Some e" and
      res: "\<forall>g. res' g = (if g \<in> fst ` set pg then files w' (filename c g) else (res(g0 \<mapsto> d)) g)" and
      ex: "\<forall>g \<in> fst ` set pg. files w' (filename c g) \<noteq> None"
      by simp_all
    from keep have f0: "files w' ?f = Some d" by simp
    have keep': "\<forall>f e. files w f = Some e \<longrightarrow> files w' f = Some e"
    proof (intro allI impI)
      fix f e assume a: "files w f = Some e"
      with None have "f \<noteq> ?f" by auto
      with a keep show "files w' f = Some e" by simp
    qed
    show ?thesis using keep' res ex f0 by (auto simp: p)
  qed
qed

lemma call_loop_all_cached:
  assumes "\<forall>g \<in> fst ` set pg. files w (filename c g) \<noteq> None"
  shows "call_loop ck c pg res w =
     (Inr (\<lambda>g. if g \<in> fst ` set pg then files w (filename c g) else res g),
      w\<lparr>printed := printed w @ loading_messages c pg\<rparr>)"
  using assms
proof (induction pg arbitrary: res w)
  case Nil
  then show ?case by (simp add: loading_messages_def)
next
  case (Cons p pg)
  obtain g0 ph where p: "p = (g0, ph)" by (cases p)
  let ?f = "filename c g0"
  let ?w1 = "w\<lparr>printed := printed w @ [Loading ?f]\<rparr>"
  from Cons.prems obtain d where d: "files w ?f = Some d" by (auto simp: p)
  have "\<forall>g \<in> fst ` set pg. files ?w1 (filename c g) \<noteq> None" using Cons.prems by simp
  note IH = Cons.IH[OF this, of "res(g0 \<mapsto> d)"]
  have run: "call_loop ck c pg (res(g0 \<mapsto> d)) ?w1 =
     (Inr (\<lambda>g. if g \<in> fst ` set pg then files w (filename c g) else (res(g0 \<mapsto> d)) g),
      ?w1\<lparr>printed := printed ?w1 @ loading_messages c pg\<rparr>)"
    unfolding IH by (simp cong: if_cong)
  have eq: "(\<lambda>g. if g \<in> fst ` set pg then files w (filename c g) else (res(g0 \<mapsto> d)) g) =
        (\<lambda>g. if g \<in> fst ` set (p # pg) then files w (filename c g) else res g)"
    using d by (auto simp: fun_eq_iff p)
  show ?case
    using d run unfolding eq[symmetric] by (simp add: p loading_messages_def)
qed

lemma call_loop_hit:
  assumes "files w (filename c grp) = Some ds" "call_loop ck c pg res w = (r, w')"
  shows "count_list (computed w') grp = count_list (computed w) grp \<and>
         files w' (filename c grp) = Some ds \<and>
         (\<forall>res'. r = Inr res' \<longrightarrow> grp \<in> fst ` set pg \<longrightarrow> res' grp = Some ds)"
  using assms
proof (induction pg arbitrary: res w)
  case Nil
  then show ?case by auto
next
  case (Cons p pg)
  obtain g0 ph where p: "p = (g0, ph)" by (cases p)
  let ?f = "filename c g0"
  show ?case
  proof (cases "files w ?f")
    case (Some d)
    let ?w1 = "w\<lparr>printed := printed w @ [Loading ?f]\<rparr>"
    from Cons.prems(2) Some have run: "call_loop ck c pg (res(g0 \<mapsto> d)) ?w1 = (r, w')"
      by (simp add: p)
    have "files ?w1 (filename c grp) = Some ds" using Cons.prems(1) by simp
    from Cons.IH[OF this run] have
      cnt: "count_list (computed w') grp = count_list (computed w) grp" and
      fl: "files w' (filename c grp) = Some ds" and
      rs: "\<forall>res'. r = Inr res' \<longrightarrow> grp \<in> fst ` set pg \<longrightarrow> res' grp = Some ds"
      by simp_all
    have "res' grp = Some ds" if "r = Inr res'" "grp = g0" for res'
    proof (cases "grp \<in> fst ` set pg")
      case True
      with rs that show ?thesis by simp
    next
      case False
      from run that(1) have "call_loop ck c pg (res(g0 \<mapsto> d)) ?w1 = (Inr res', w')" by simp
      from call_loop_grows[OF this] False have "res' grp = (res(g0 \<mapsto> d)) grp" by simp
      with that(2) Some Cons.prems(1) show ?thesis by simp
    qed
    with cnt fl rs show ?thesis by (auto simp: p)
  next
    case None
    with Cons.prems(1) have ne: "?f \<noteq> filename c grp" by auto
    then have g: "g0 \<noteq> grp" by auto
    let ?w2 = "w\<lparr>printed := printed w @ [Loading ?f], computed := computed w @ [g0]\<rparr>"
    show ?thesis
    proof (cases "calculate_lookup ck c ph")
      case (Inl e)
      with Cons.prems(2) None have "r = Inl e" "w' = ?w2" by (simp_all add: p Let_def)
      with Cons.prems(1) g show ?thesis by simp
    next
      case (Inr d)
      with Cons.prems(2) None have
        run: "call_loop ck c pg (res(g0 \<mapsto> d)) (?w2\<lparr>files := (files ?w2)(?f \<mapsto> d)\<rparr>) = (r, w')"
        by (simp add: p Let_def)
      have "files (?w2\<lparr>files := (files ?w2)(?f \<mapsto> d)\<rparr>) (filename c grp) = Some ds"
        using Cons.prems(1) ne by simp
      from Cons.IH[OF this run] g have
        cnt: "count_list (computed w') grp = count_list (computed w) grp" and
        fl: "files w' (filename c grp) = Some ds" and
        rs: "\<forall>res'. r = Inr res' \<longrightarrow> grp \<in> fst ` set pg \<longrightarrow> res' grp = Some ds"
        by simp_all
      with g show ?thesis by (auto simp: p)
    qed
  qed
qed

lemma call_twice:
  assumes same: "\<forall>g. filename c2 g = filename c1 g"
    and first: "call ck c1 pg w = (Inr results, w1)"
  shows "call ck c2 pg w1 = (Inr results, w1\<lparr>printed := printed w1 @ loading_messages c2 pg\<rparr>)"
proof -
  from call_loop_grows[OF first[unfolded call_def]] have
    res: "\<forall>g. results g = (if g \<in> fst ` set pg then files w1 (filename c1 g) else None)" and
    ex: "\<forall>g \<in> fst ` set pg. files w1 (filename c1 g) \<noteq> None"
    by simp_all
  from ex same have "\<forall>g \<in> fst ` set pg. files w1 (filename c2 g) \<noteq> None" by simp
  from call_loop_all_cached[OF this, of ck Map.empty]
  have "call ck c2 pg w1 =
     (Inr (\<lambda>g. if g \<in> fst ` set pg then files w1 (filename c2 g) else None),
      w1\<lparr>printed := printed w1 @ loading_messages c2 pg\<rparr>)"
    by (simp add: call_def)
  moreover have "(\<lambda>g. if g \<in> fst ` set pg then files w1 (filename c2 g) else None) = results"
    using res same by (auto simp: fun_eq_iff)
  ultimately show ?thesis by simp
qed

text \<open>
  C1. When the file of a group exists at the start of a call, the sweep is not started
  for that group and the result of the group, when the call returns, is the stored
  dataset; and a second call with the same groups, after a call that returned, returns
  the same tables, starts no sweep and writes no file.
\<close>

theorem cache_hit_no_recomputation:
  "(\<forall>grp phases ds r w'.
      (grp, phases) \<in> set phase_groups \<longrightarrow> files w (filename c grp) = Some ds \<longrightarrow>
      call ck c phase_groups w = (r, w') \<longrightarrow>
        count_list (computed w') grp = count_list (computed w) grp \<and>
        (\<forall>results. r = Inr results \<longrightarrow> results grp = Some ds)) \<and>
   (\<forall>results w1.
      call ck c phase_groups w = (Inr results, w1) \<longrightarrow>
        call ck c phase_groups w1 =
          (Inr results, w1\<lparr>printed := printed w1 @ loading_messages c phase_groups\<rparr>))"
proof (intro conjI allI impI)
  fix grp phases ds r w'
  assume a: "(grp, phases) \<in> set phase_groups" "files w (filename c grp) = Some ds"
    "call ck c phase_groups w = (r, w')"
  from call_loop_hit[OF a(2) a(3)[unfolded call_def]]
  show "count_list (computed w') grp = count_list (computed w) grp" by simp
  fix results assume "r = Inr results"
  moreover have "grp \<in> fst ` set phase_groups" using a(1) by force
  ultimately show "results grp = Some ds"
    using call_loop_hit[OF a(2) a(3)[unfolded call_def]] by simp
next
  fix results w1
  assume "call ck c phase_groups w = (Inr results, w1)"
  then show "call ck c phase_groups w1 =
          (Inr results, w1\<lparr>printed := printed w1 @ loading_messages c phase_groups\<rparr>)"
    by (rule call_twice[rotated]) simp
qed

theorem cache_hit_no_recomputation_witness:
  "(''p'', [''p'', ''P'']) \<in> set ex_groups \<and>
   files ex_world (filename (ex_calc [1000, 2000]) ''p'') = Some ex_stored \<and>
   (\<exists>results w1.
      call ex_cake (ex_calc [1000, 2000]) ex_groups ex_world = (Inr results, w1) \<and>
      results ''p'' = Some ex_stored \<and>
      count_list (computed w1) ''p'' = count_list (computed ex_world) ''p'' \<and>
      call ex_cake (ex_calc [1000, 2000]) ex_groups w1 =
        (Inr results,
         w1\<lparr>printed := printed w1 @ loading_messages (ex_calc [1000, 2000]) ex_groups\<rparr>))"
proof -
  have h1: "(''p'', [''p'', ''P'']) \<in> set ex_groups" by (simp add: ex_groups_def)
  have h2: "files ex_world (filename (ex_calc [1000, 2000]) ''p'') = Some ex_stored"
    by (simp add: ex_filename ex_world_def)
  have "case call ex_cake (ex_calc [1000, 2000]) ex_groups ex_world of
          (Inr results, w1) \<Rightarrow> True | (Inl e, w1) \<Rightarrow> False"
    by code_simp
  then obtain results w1 where
    c: "call ex_cake (ex_calc [1000, 2000]) ex_groups ex_world = (Inr results, w1)"
    by (auto split: prod.splits sum.splits)
  from cache_hit_no_recomputation[of ex_groups ex_world "ex_calc [1000, 2000]" ex_cake] h1 h2 c
  show ?thesis by blast
qed





section \<open>Properties of the point selector\<close>

lemma load_points_Pickle:
  "fn \<noteq> [] \<Longrightarrow> gui_files w fn = Some (Pickle pts) \<Longrightarrow>
   load_points (Some fn) w = (Some pts, w\<lparr>gui_printed := gui_printed w @ [Loaded_points fn]\<rparr>)"
  by (simp add: load_points_def)

lemma load_points_Unreadable:
  "fn \<noteq> [] \<Longrightarrow> gui_files w fn = Some Unreadable \<Longrightarrow>
   load_points (Some fn) w = (None, w\<lparr>gui_printed := gui_printed w @ [Failed_to_load fn, Proceeding]\<rparr>)"
  by (simp add: load_points_def)

lemma load_points_not_Pickle:
  assumes "\<forall>old. gui_files w fn \<noteq> Some (Pickle old)"
  shows "\<exists>w1. load_points (Some fn) w = (None, w1) \<and> gui_files w1 = gui_files w \<and>
           write_fails w1 = write_fails w \<and> sessions w1 = sessions w"
proof (cases "gui_files w fn")
  case None
  then show ?thesis by (simp add: load_points_def)
next
  case (Some fc)
  with assms have "fc = Unreadable" by (cases fc) auto
  with Some show ?thesis by (simp add: load_points_def)
qed

lemma select_points_loaded:
  "fn \<noteq> [] \<Longrightarrow> gui_files w fn = Some (Pickle pts) \<Longrightarrow>
   select_points (Some fn) events w =
     (Some pts, w\<lparr>gui_printed := gui_printed w @ [Loaded_points fn]\<rparr>)"
  by (simp add: select_points_def load_points_Pickle)

lemma select_points_session:
  assumes "load_points (Some fn) w = (None, w1)"
  shows "select_points (Some fn) events w =
     (get_result (PointSelector events),
      save_points (Some fn) (get_result (PointSelector events))
        (w1\<lparr>sessions := sessions w1 + 1,
            gui_printed := gui_printed w1 @ messages (PointSelector events)\<rparr>))"
  using assms by (simp add: select_points_def Let_def)

lemma save_points_sessions: "sessions (save_points f p w) = sessions w"
  by (auto simp: save_points_def split: option.splits)

lemma save_points_printed: "\<exists>rest. gui_printed (save_points f p w) = gui_printed w @ rest"
  by (auto simp: save_points_def split: option.splits)

lemma save_points_fails:
  "fn \<noteq> [] \<Longrightarrow> pts \<noteq> [] \<Longrightarrow> write_fails w fn \<Longrightarrow>
   save_points (Some fn) (Some pts) w = w\<lparr>gui_printed := gui_printed w @ [Failed_to_save fn]\<rparr>"
  by (simp add: save_points_def)

lemma save_points_ok:
  "fn \<noteq> [] \<Longrightarrow> pts \<noteq> [] \<Longrightarrow> \<not> write_fails w fn \<Longrightarrow>
   save_points (Some fn) (Some pts) w =
     w\<lparr>gui_files := (gui_files w)(fn \<mapsto> Pickle pts),
       gui_printed := gui_printed w @ [Saved_points fn]\<rparr>"
  by (simp add: save_points_def)

text \<open>
  C5. With a file path: when the file holds pickled points, they are returned and no
  session is started; when the file cannot be loaded, the failure is printed and the
  session runs; when saving the points of a session fails, the failure is printed and
  the points are returned all the same.
\<close>

theorem select_points_load_and_save_failures:
  assumes "fn \<noteq> []"
  shows "(\<forall>pts. gui_files w fn = Some (Pickle pts) \<longrightarrow>
            select_points (Some fn) events w =
              (Some pts, w\<lparr>gui_printed := gui_printed w @ [Loaded_points fn]\<rparr>)) \<and>
         (gui_files w fn = Some Unreadable \<longrightarrow>
            (\<exists>w' rest. select_points (Some fn) events w = (get_result (PointSelector events), w') \<and>
               sessions w' = sessions w + 1 \<and>
               gui_printed w' = gui_printed w @ [Failed_to_load fn, Proceeding] @ rest)) \<and>
         (\<forall>pts. (\<forall>old. gui_files w fn \<noteq> Some (Pickle old)) \<longrightarrow>
            get_result (PointSelector events) = Some pts \<longrightarrow> pts \<noteq> [] \<longrightarrow> write_fails w fn \<longrightarrow>
            (\<exists>w'. select_points (Some fn) events w = (Some pts, w') \<and>
               sessions w' = sessions w + 1 \<and> gui_files w' = gui_files w \<and>
               last (gui_printed w') = Failed_to_save fn))"
proof (intro conjI allI impI)
  fix pts assume "gui_files w fn = Some (Pickle pts)"
  then show "select_points (Some fn) events w =
              (Some pts, w\<lparr>gui_printed := gui_printed w @ [Loaded_points fn]\<rparr>)"
    by (rule select_points_loaded[OF assms])
next
  assume u: "gui_files w fn = Some Unreadable"
  let ?w1 = "w\<lparr>gui_printed := gui_printed w @ [Failed_to_load fn, Proceeding]\<rparr>"
  let ?w2 = "?w1\<lparr>sessions := sessions ?w1 + 1,
                  gui_printed := gui_printed ?w1 @ messages (PointSelector events)\<rparr>"
  let ?w' = "save_points (Some fn) (get_result (PointSelector events)) ?w2"
  have sp: "select_points (Some fn) events w = (get_result (PointSelector events), ?w')"
    by (rule select_points_session[OF load_points_Unreadable[OF assms u]])
  from save_points_printed[of "Some fn" "get_result (PointSelector events)" ?w2]
  obtain rest where "gui_printed ?w' = gui_printed ?w2 @ rest" by blast
  then have "gui_printed ?w' =
     gui_printed w @ [Failed_to_load fn, Proceeding] @ (messages (PointSelector events) @ rest)"
    by simp
  moreover have "sessions ?w' = sessions w + 1" by (simp add: save_points_sessions)
  ultimately show "\<exists>w' rest. select_points (Some fn) events w = (get_result (PointSelector events), w') \<and>
               sessions w' = sessions w + 1 \<and>
               gui_printed w' = gui_printed w @ [Failed_to_load fn, Proceeding] @ rest"
    using sp by blast
next
  fix pts
  assume np: "\<forall>old. gui_files w fn \<noteq> Some (Pickle old)"
    and gr: "get_result (PointSelector events) = Some pts" and ne: "pts \<noteq> []"
    and wf: "write_fails w fn"
  from load_points_not_Pickle[OF np] obtain w1 where
    lp: "load_points (Some fn) w = (None, w1)" and
    w1: "gui_files w1 = gui_files w" "write_fails w1 = write_fails w" "sessions w1 = sessions w"
    by blast
  let ?w2 = "w1\<lparr>sessions := sessions w1 + 1,
                 gui_printed := gui_printed w1 @ messages (PointSelector events)\<rparr>"
  have wf2: "write_fails ?w2 fn" using wf w1 by simp
  have sp: "select_points (Some fn) events w =
     (Some pts, ?w2\<lparr>gui_printed := gui_printed ?w2 @ [Failed_to_save fn]\<rparr>)"
    using select_points_session[OF lp, of events] save_points_fails[OF assms ne wf2]
    by (simp add: gr)
  show "\<exists>w'. select_points (Some fn) events w = (Some pts, w') \<and>
               sessions w' = sessions w + 1 \<and> gui_files w' = gui_files w \<and>
               last (gui_printed w') = Failed_to_save fn"
    unfolding sp using w1 by simp
qed

theorem select_points_load_and_save_failures_witness:
  "''pts.pkl'' \<noteq> [] \<and>
   select_points (Some ''pts.pkl'') ex_events (ex_gui [''pts.pkl'' \<mapsto> Pickle [[(7, 8)]]] False) =
     (Some [[(7, 8)]],
      (ex_gui [''pts.pkl'' \<mapsto> Pickle [[(7, 8)]]] False)\<lparr>gui_printed := [Loaded_points ''pts.pkl'']\<rparr>) \<and>
   (\<exists>w' rest.
      select_points (Some ''pts.pkl'') ex_events (ex_gui [''pts.pkl'' \<mapsto> Unreadable] False) =
        (Some ex_points, w') \<and>
      sessions w' = 1 \<and> gui_printed w' = [Failed_to_load ''pts.pkl'', Proceeding] @ rest) \<and>
   (\<exists>w'. select_points (Some ''pts.pkl'') ex_events (ex_gui Map.empty True) = (Some ex_points, w') \<and>
      sessions w' = 1 \<and> gui_files w' = Map.empty \<and>
      last (gui_printed w') = Failed_to_save ''pts.pkl'')"
proof -
  have ne: "''pts.pkl'' \<noteq> []" by simp
  note t1 = select_points_load_and_save_failures
    [OF ne, of "ex_gui [''pts.pkl'' \<mapsto> Pickle [[(7, 8)]]] False" ex_events]
  note t2 = select_points_load_and_save_failures
    [OF ne, of "ex_gui [''pts.pkl'' \<mapsto> Unreadable] False" ex_events]
  note t3 = select_points_load_and_save_failures
    [OF ne, of "ex_gui Map.empty True" ex_events]
  have a: "select_points (Some ''pts.pkl'') ex_events (ex_gui [''pts.pkl'' \<mapsto> Pickle [[(7, 8)]]] False) =
     (Some [[(7, 8)]],
      (ex_gui [''pts.pkl'' \<mapsto> Pickle [[(7, 8)]]] False)\<lparr>gui_printed := [Loaded_points ''pts.pkl'']\<rparr>)"
    using t1 by (simp add: ex_gui_def)
  have b: "\<exists>w' rest.
      select_points (Some ''pts.pkl'') ex_events (ex_gui [''pts.pkl'' \<mapsto> Unreadable] False) =
        (Some ex_points, w') \<and>
      sessions w' = 1 \<and> gui_printed w' = [Failed_to_load ''pts.pkl'', Proceeding] @ rest"
    using t2 by (simp add: ex_gui_def ex_session)
  have c: "\<exists>w'. select_points (Some ''pts.pkl'') ex_events (ex_gui Map.empty True) = (Some ex_points, w') \<and>
      sessions w' = 1 \<and> gui_files w' = Map.empty \<and>
      last (gui_printed w') = Failed_to_save ''pts.pkl''"
    using t3 ex_points_ne by (simp add: ex_gui_def ex_session)
  from ne a b c show ?thesis by blast
qed

text \<open>
  C6. For every non-empty list of polylines and a path that can be written, after the
  save step \<open>select_points\<close> with the same path returns the same list, without a
  session; in particular a call that ran a session and saved its points is followed by
  calls that return these points.
\<close>

theorem save_then_load_roundtrip:
  assumes "fn \<noteq> []" "pts \<noteq> []" "\<not> write_fails w fn"
  shows "(let w1 = save_points (Some fn) (Some pts) w in
            select_points (Some fn) events w1 =
              (Some pts, w1\<lparr>gui_printed := gui_printed w1 @ [Loaded_points fn]\<rparr>)) \<and>
         ((\<forall>old. gui_files w fn \<noteq> Some (Pickle old)) \<longrightarrow>
            get_result (PointSelector events0) = Some pts \<longrightarrow>
            (\<exists>w1. select_points (Some fn) events0 w = (Some pts, w1) \<and>
               select_points (Some fn) events w1 =
                 (Some pts, w1\<lparr>gui_printed := gui_printed w1 @ [Loaded_points fn]\<rparr>)))"
proof (intro conjI impI)
  let ?w1 = "save_points (Some fn) (Some pts) w"
  have "gui_files ?w1 fn = Some (Pickle pts)"
    by (simp add: save_points_ok[OF assms])
  from select_points_loaded[OF assms(1) this]
  show "let w1 = ?w1 in select_points (Some fn) events w1 =
              (Some pts, w1\<lparr>gui_printed := gui_printed w1 @ [Loaded_points fn]\<rparr>)"
    by (simp add: Let_def)
next
  assume np: "\<forall>old. gui_files w fn \<noteq> Some (Pickle old)"
    and gr: "get_result (PointSelector events0) = Some pts"
  from load_points_not_Pickle[OF np] obtain w1 where
    lp: "load_points (Some fn) w = (None, w1)" and
    w1: "gui_files w1 = gui_files w" "write_fails w1 = write_fails w" "sessions w1 = sessions w"
    by blast
  let ?w2 = "w1\<lparr>sessions := sessions w1 + 1,
                 gui_printed := gui_printed w1 @ messages (PointSelector events0)\<rparr>"
  let ?w3 = "save_points (Some fn) (Some pts) ?w2"
  have nwf: "\<not> write_fails ?w2 fn" using assms(3) w1 by simp
  have sp: "select_points (Some fn) events0 w = (Some pts, ?w3)"
    using select_points_session[OF lp, of events0] by (simp add: gr)
  have "gui_files ?w3 fn = Some (Pickle pts)"
    unfolding save_points_ok[OF assms(1,2) nwf] by simp
  from select_points_loaded[OF assms(1) this] sp
  show "\<exists>w1. select_points (Some fn) events0 w = (Some pts, w1) \<and>
               select_points (Some fn) events w1 =
                 (Some pts, w1\<lparr>gui_printed := gui_printed w1 @ [Loaded_points fn]\<rparr>)"
    by blast
qed

theorem save_then_load_roundtrip_witness:
  "''pts.pkl'' \<noteq> [] \<and> ex_points \<noteq> [] \<and> \<not> write_fails (ex_gui Map.empty False) ''pts.pkl'' \<and>
   get_result (PointSelector ex_events) = Some ex_points \<and>
   (\<exists>w1. select_points (Some ''pts.pkl'') ex_events (ex_gui Map.empty False) = (Some ex_points, w1) \<and>
      select_points (Some ''pts.pkl'') [] w1 =
        (Some ex_points, w1\<lparr>gui_printed := gui_printed w1 @ [Loaded_points ''pts.pkl'']\<rparr>))"
proof -
  have ne: "''pts.pkl'' \<noteq> []" by simp
  have nf: "\<not> write_fails (ex_gui Map.empty False) ''pts.pkl''" by (simp add: ex_gui_def)
  have np: "\<forall>old. gui_files (ex_gui Map.empty False) ''pts.pkl'' \<noteq> Some (Pickle old)"
    by (simp add: ex_gui_def)
  from save_then_load_roundtrip[OF ne ex_points_ne nf, of "[]" ex_events] np ex_session
  have "\<exists>w1. select_points (Some ''pts.pkl'') ex_events (ex_gui Map.empty False) = (Some ex_points, w1) \<and>
      select_points (Some ''pts.pkl'') [] w1 =
        (Some ex_points, w1\<lparr>gui_printed := gui_printed w1 @ [Loaded_points ''pts.pkl'']\<rparr>)"
    by blast
  with ne ex_points_ne nf ex_session show ?thesis by blast
qed

text \<open>
  C7. Closing the window appends a non-empty line in progress to the finished lines, and
  \<open>get_result\<close> then returns the finished lines with that line; with an empty line in
  progress it returns the finished lines as they were.
\<close>

theorem on_close_finalizes_line:
  "(current_line s \<noteq> [] \<longrightarrow>
      selected_points (on_close s) = selected_points s @ [current_line s] \<and>
      get_result (on_close s) = Some (selected_points s @ [current_line s])) \<and>
   (current_line s = [] \<longrightarrow>
      selected_points (on_close s) = selected_points s \<and>
      get_result (on_close s) = Some (selected_points s))"
  by (simp add: on_close_def get_result_def Let_def)

theorem on_close_finalizes_line_witness:
  "current_line (ex_selector [(5, 6)]) \<noteq> [] \<and>
   get_result (on_close (ex_selector [(5, 6)])) = Some [[(1, 2), (3, 4)], [(5, 6)]] \<and>
   current_line (ex_selector []) = [] \<and>
   get_result (on_close (ex_selector [])) = Some [[(1, 2), (3, 4)]]"
  using on_close_finalizes_line[of "ex_selector [(5, 6)]"] on_close_finalizes_line[of "ex_selector []"]
  by (simp add: ex_selector_def)

text \<open>
  C8. \<open>finish_line\<close> with an empty line in progress changes nothing: the finished
  lines, the line in progress, its index and what was printed stay as they were.
\<close>

theorem finish_empty_line_noop:
  "current_line s = [] \<Longrightarrow> finish_line s = s"
  by (simp add: finish_line_def)

theorem finish_empty_line_noop_witness:
  "current_line (ex_selector []) = [] \<and> finish_line (ex_selector []) = ex_selector [] \<and>
   selected_points (finish_line (ex_selector [])) = [[(1, 2), (3, 4)]]"
proof -
  have h: "current_line (ex_selector []) = []" by (simp add: ex_selector_def)
  from finish_empty_line_noop[OF h] h show ?thesis by (simp add: ex_selector_def)
qed

end
